theory Spec2Isabelle
  imports Complex_Main "HOL-Library.AList"
begin

section \<open>The expense tracker of \<^verbatim>\<open>src/App.js\<close>\<close>

text \<open>
  The development embeds the computational parts of \<^verbatim>\<open>src/App.js\<close>: the form handlers of
  \<^verbatim>\<open>ExpenseTracker\<close> (validation, sign normalisation, edit sessions), the snapshot
  subscription (sorting by date), the memoised aggregates (totals, monthly selection, type
  filter), the reducer of \<^verbatim>\<open>DoughnutChart\<close>, and the name resolution of the auth-state
  callback of \<^verbatim>\<open>App\<close>.

  Conventions of the embedding.
  \<^item> A JavaScript Number is a value of type \<open>number\<close>: \<open>NaN\<close>, the two infinities, or a
    finite value carried as an exact rational. Arithmetic on finite values is exact: the
    rounding, overflow and underflow of IEEE-754 doubles are not modelled.
  \<^item> The amounts of stored transactions are finite numbers (type \<open>rat\<close>).
  \<^item> Strings are \<open>string\<close>; a field that is \<^verbatim>\<open>null\<close> or a string is a \<open>string option\<close>.
  \<^item> The record store (Firestore) is a collaborator: a write is a \<open>request\<close> value, and
    whether the awaited promise resolves is the boolean parameter \<open>stored\<close>.
\<close>

subsection \<open>Numbers\<close>

datatype number = NaN | PosInf | NegInf | Fin rat

text \<open>\<^verbatim>\<open>x <= 0\<close>, \<^verbatim>\<open>x > 0\<close> and \<^verbatim>\<open>x < 0\<close>: every comparison with \<open>NaN\<close> is false.\<close>

fun js_le0 :: "number \<Rightarrow> bool" where
  "js_le0 NaN = False"
| "js_le0 PosInf = False"
| "js_le0 NegInf = True"
| "js_le0 (Fin r) = (r \<le> 0)"

fun js_gt0 :: "number \<Rightarrow> bool" where
  "js_gt0 NaN = False"
| "js_gt0 PosInf = True"
| "js_gt0 NegInf = False"
| "js_gt0 (Fin r) = (0 < r)"

fun js_lt0 :: "number \<Rightarrow> bool" where
  "js_lt0 NaN = False"
| "js_lt0 PosInf = False"
| "js_lt0 NegInf = True"
| "js_lt0 (Fin r) = (r < 0)"

text \<open>\<^verbatim>\<open>Math.abs\<close> and unary minus.\<close>

fun Math_abs :: "number \<Rightarrow> number" where
  "Math_abs NaN = NaN"
| "Math_abs PosInf = PosInf"
| "Math_abs NegInf = PosInf"
| "Math_abs (Fin r) = Fin \<bar>r\<bar>"

fun js_neg :: "number \<Rightarrow> number" where
  "js_neg NaN = NaN"
| "js_neg PosInf = NegInf"
| "js_neg NegInf = PosInf"
| "js_neg (Fin r) = Fin (- r)"

text \<open>Truthiness of a Number: \<open>0\<close> and \<open>NaN\<close> are falsy.\<close>

fun truthy_number :: "number \<Rightarrow> bool" where
  "truthy_number NaN = False"
| "truthy_number (Fin r) = (r \<noteq> 0)"
| "truthy_number _ = True"

subsection \<open>\<^verbatim>\<open>parseFloat\<close>\<close>

text \<open>
  \<^verbatim>\<open>parseFloat\<close> trims leading white space and reads the longest prefix that is a
  \<^verbatim>\<open>StrDecimalLiteral\<close>: an optional sign, then \<^verbatim>\<open>Infinity\<close>, or digits with an optional
  fraction and an optional exponent; \<open>NaN\<close> when no such prefix exists. Characters are
  bytes here, so only the ASCII white space is trimmed.
\<close>

definition isDigit :: "char \<Rightarrow> bool" where
  "isDigit c = (c \<in> set ''0123456789'')"

definition digitVal :: "char \<Rightarrow> nat" where
  "digitVal c = of_char c - 48"

definition parseDigits :: "string \<Rightarrow> nat" where
  "parseDigits ds = foldl (\<lambda>acc c. 10 * acc + digitVal c) 0 ds"

definition isWhiteSpace :: "char \<Rightarrow> bool" where
  "isWhiteSpace c = (c \<in> set [CHR '' '', CHR 0x09, CHR 0x0A, CHR 0x0B, CHR 0x0C, CHR 0x0D])"

fun readSign :: "string \<Rightarrow> bool \<times> string" where
  "readSign [] = (False, [])"
| "readSign (c # cs) =
     (if c = CHR ''-'' then (True, cs) else if c = CHR ''+'' then (False, cs) else (False, c # cs))"

text \<open>The exponent part counts only when it is complete: \<^verbatim>\<open>e\<close>, optional sign, a digit.\<close>

fun readExponent :: "string \<Rightarrow> int" where
  "readExponent [] = 0"
| "readExponent (c # cs) =
     (if c = CHR ''e'' \<or> c = CHR ''E'' then
        (let (neg, r) = readSign cs; ds = takeWhile isDigit r
         in if ds = [] then 0
            else if neg then - int (parseDigits ds) else int (parseDigits ds))
      else 0)"

definition scale10 :: "rat \<Rightarrow> int \<Rightarrow> rat" where
  "scale10 m e = (if 0 \<le> e then m * 10 ^ nat e else m / 10 ^ nat (- e))"

definition parseFloat :: "string \<Rightarrow> number" where
  "parseFloat s =
     (let (neg, s2) = readSign (dropWhile isWhiteSpace s)
      in if take 8 s2 = ''Infinity'' then (if neg then NegInf else PosInf)
         else
           (let ip = takeWhile isDigit s2;
                r1 = dropWhile isDigit s2;
                (fp, r2) = (case r1 of
                              [] \<Rightarrow> ([], r1)
                            | c # r \<Rightarrow> if c = CHR ''.'' then (takeWhile isDigit r, dropWhile isDigit r)
                                       else ([], r1))
            in if ip = [] \<and> fp = [] then NaN
               else
                 (let v = scale10 (of_nat (parseDigits (ip @ fp)) / 10 ^ length fp) (readExponent r2)
                  in Fin (if neg then - v else v))))"

subsection \<open>Dates\<close>

text \<open>
  A transaction's \<^verbatim>\<open>date\<close> is a string. The code reads it twice: \<^verbatim>\<open>new Date(t.date)\<close> in
  the sort comparator and \<^verbatim>\<open>new Date(t.date + 'T00:00:00')\<close> in the monthly selection.
  Both are read in the date-time string format of ECMAScript, whose date-only forms are
  \<^verbatim>\<open>YYYY\<close>, \<^verbatim>\<open>YYYY-MM\<close> and \<^verbatim>\<open>YYYY-MM-DD\<close> (the year possibly expanded to a sign and
  six digits). A date-only form is midnight UTC; followed by \<^verbatim>\<open>T00:00:00\<close> it is midnight
  local time, whose \<^verbatim>\<open>getFullYear\<close> and \<^verbatim>\<open>getMonth\<close> are the year and the month written
  in the string. Strings outside the format are left to the implementation by ECMAScript;
  the model gives them the invalid date, as it does to illegal field values.
\<close>

record civil =
  c_year :: int
  c_month :: nat
  c_day :: nat

definition allDigits :: "string \<Rightarrow> bool" where
  "allDigits ds = list_all isDigit ds"

text \<open>The year: four digits, or a sign and six digits (\<^verbatim>\<open>-000000\<close> is illegal).\<close>

definition readYear :: "string \<Rightarrow> (int \<times> string) option" where
  "readYear s =
     (case s of
        [] \<Rightarrow> None
      | c # cs \<Rightarrow>
          if c = CHR ''+'' \<or> c = CHR ''-'' then
            (let ds = take 6 cs
             in if length ds = 6 \<and> allDigits ds \<and> \<not> (c = CHR ''-'' \<and> parseDigits ds = 0)
                then Some (if c = CHR ''-'' then - int (parseDigits ds) else int (parseDigits ds),
                           drop 6 cs)
                else None)
          else
            (let ds = take 4 s
             in if length ds = 4 \<and> allDigits ds then Some (int (parseDigits ds), drop 4 s)
                else None))"

text \<open>A further field: \<^verbatim>\<open>-\<close> and two digits.\<close>

definition readField :: "string \<Rightarrow> (nat \<times> string) option" where
  "readField s =
     (case s of
        [] \<Rightarrow> None
      | c # cs \<Rightarrow>
          (let ds = take 2 cs
           in if c = CHR ''-'' \<and> length ds = 2 \<and> allDigits ds
              then Some (parseDigits ds, drop 2 cs) else None))"

definition isLeapYear :: "int \<Rightarrow> bool" where
  "isLeapYear y = (y mod 4 = 0 \<and> (y mod 100 \<noteq> 0 \<or> y mod 400 = 0))"

definition daysInMonth :: "int \<Rightarrow> nat \<Rightarrow> nat" where
  "daysInMonth y m =
     (if m = 2 then (if isLeapYear y then 29 else 28)
      else if m \<in> {4, 6, 9, 11} then 30 else 31)"

definition validCivil :: "civil \<Rightarrow> bool" where
  "validCivil c =
     (1 \<le> c_month c \<and> c_month c \<le> 12 \<and> 1 \<le> c_day c \<and> c_day c \<le> daysInMonth (c_year c) (c_month c))"

definition readMonthDay :: "int \<Rightarrow> string \<Rightarrow> civil option" where
  "readMonthDay y r1 =
     (if r1 = [] then Some \<lparr>c_year = y, c_month = 1, c_day = 1\<rparr>
      else
        (case readField r1 of
           None \<Rightarrow> None
         | Some (m, r2) \<Rightarrow>
             (if r2 = [] then Some \<lparr>c_year = y, c_month = m, c_day = 1\<rparr>
              else
                (case readField r2 of
                   None \<Rightarrow> None
                 | Some (d, r3) \<Rightarrow>
                     (if r3 = [] then Some \<lparr>c_year = y, c_month = m, c_day = d\<rparr> else None)))))"

definition parseDate :: "string \<Rightarrow> civil option" where
  "parseDate s =
     (case readYear s of
        None \<Rightarrow> None
      | Some (y, r1) \<Rightarrow>
          (case readMonthDay y r1 of
             None \<Rightarrow> None
           | Some cv \<Rightarrow> (if validCivil cv then Some cv else None)))"

text \<open>The time value in milliseconds, by \<^verbatim>\<open>DayFromYear\<close> and the month table of ECMAScript.\<close>

definition DayFromYear :: "int \<Rightarrow> int" where
  "DayFromYear y =
     365 * (y - 1970) + (y - 1969) div 4 - (y - 1901) div 100 + (y - 1601) div 400"

definition dayWithinYear :: "int \<Rightarrow> nat \<Rightarrow> nat" where
  "dayWithinYear y m =
     [0, 31, 59, 90, 120, 151, 181, 212, 243, 273, 304, 334] ! (m - 1)
       + (if isLeapYear y \<and> 2 < m then 1 else 0)"

definition dayNumber :: "civil \<Rightarrow> int" where
  "dayNumber c = DayFromYear (c_year c) + int (dayWithinYear (c_year c) (c_month c)) + int (c_day c) - 1"

definition msPerDay :: int where
  "msPerDay = 86400000"

text \<open>\<^verbatim>\<open>new Date(s).valueOf()\<close> for a date-only string; \<open>None\<close> is the \<open>NaN\<close> of an invalid date.\<close>

definition timeValue :: "string \<Rightarrow> int option" where
  "timeValue s = map_option (\<lambda>c. msPerDay * dayNumber c) (parseDate s)"

text \<open>\<^verbatim>\<open>new Date(s + 'T00:00:00')\<close> and its \<^verbatim>\<open>getFullYear()\<close>, \<^verbatim>\<open>getMonth()\<close> (zero-based).\<close>

definition getFullYear :: "string \<Rightarrow> int option" where
  "getFullYear s = map_option c_year (parseDate s)"

definition getMonth :: "string \<Rightarrow> int option" where
  "getMonth s = map_option (\<lambda>c. int (c_month c) - 1) (parseDate s)"

subsection \<open>Transactions and the snapshot subscription\<close>

record transaction =
  t_id :: string
  t_text :: string
  t_amount :: rat
  t_type :: string
  t_category :: string
  t_date :: string

text \<open>
  The comparator \<^verbatim>\<open>(a, b) => new Date(b.date) - new Date(a.date)\<close>; the difference is
  \<open>NaN\<close> when either date is invalid.
\<close>

definition compareFn :: "transaction \<Rightarrow> transaction \<Rightarrow> number" where
  "compareFn a b =
     (case (timeValue (t_date b), timeValue (t_date a)) of
        (Some tb, Some ta) \<Rightarrow> Fin (of_int (tb - ta))
      | _ \<Rightarrow> NaN)"

text \<open>
  \<^verbatim>\<open>Array.prototype.sort\<close> is stable, and a comparator result of \<open>NaN\<close> counts as \<open>+0\<close>.
  It is modelled by stable insertion: an element moves behind exactly those elements the
  comparator puts strictly before it. With a consistent comparator every stable sort yields
  this list; with an inconsistent one (invalid dates) ECMAScript leaves the order to the
  implementation.
\<close>

fun insertBy :: "('a \<Rightarrow> 'a \<Rightarrow> number) \<Rightarrow> 'a \<Rightarrow> 'a list \<Rightarrow> 'a list" where
  "insertBy cmp x [] = [x]"
| "insertBy cmp x (y # ys) = (if js_gt0 (cmp x y) then y # insertBy cmp x ys else x # y # ys)"

definition sortBy :: "('a \<Rightarrow> 'a \<Rightarrow> number) \<Rightarrow> 'a list \<Rightarrow> 'a list" where
  "sortBy cmp xs = foldr (insertBy cmp) xs []"

text \<open>
  The \<^verbatim>\<open>onSnapshot\<close> callback (lines 226 to 230): the documents, sorted, become the
  \<^verbatim>\<open>transactions\<close> state.
\<close>

definition onSnapshot :: "transaction list \<Rightarrow> transaction list" where
  "onSnapshot docs = sortBy compareFn docs"

subsection \<open>Aggregates\<close>




record selectedDate =
  sel_year :: int
  sel_month :: int

definition monthlyTransactions :: "transaction list \<Rightarrow> int \<Rightarrow> int \<Rightarrow> transaction list" where
  "monthlyTransactions transactions year month =
     filter (\<lambda>t. getFullYear (t_date t) = Some year \<and> getMonth (t_date t) = Some month) transactions"




subsection \<open>The state of \<^verbatim>\<open>ExpenseTracker\<close> and what it renders\<close>

text \<open>
  The \<^verbatim>\<open>amount\<close> state holds the string of the input element, or, after
  \<^verbatim>\<open>handleEditTransaction\<close>, the Number \<^verbatim>\<open>Math.abs(transaction.amount)\<close>.
\<close>

datatype amountField = AStr string | ANum number

record tracker =
  s_transactions :: "transaction list"
  s_filter :: string
  s_text :: string
  s_amount :: amountField
  s_category :: string
  s_transactionType :: string
  s_date :: string
  s_editingId :: "string option"
  s_selectedDate :: selectedDate
  s_formError :: string



subsection \<open>The form handlers\<close>

text \<open>\<^verbatim>\<open>!amount\<close>: the empty string, \<open>0\<close> and \<open>NaN\<close> are falsy.\<close>

fun falsy_amount :: "amountField \<Rightarrow> bool" where
  "falsy_amount (AStr s) = (s = [])"
| "falsy_amount (ANum n) = (\<not> truthy_number n)"

text \<open>
  \<^verbatim>\<open>parseFloat(amount)\<close> converts its argument to a string first. For a Number that string
  is the literal which reads back as the same Number.
\<close>

fun parseFloat_amount :: "amountField \<Rightarrow> number" where
  "parseFloat_amount (AStr s) = parseFloat s"
| "parseFloat_amount (ANum n) = n"

record transactionData =
  d_text :: string
  d_amount :: number
  d_category :: string
  d_type :: string
  d_date :: string

text \<open>
  The failures a submit can end in, each with the message it puts into \<^verbatim>\<open>formError\<close>.
\<close>

datatype error = MissingField | InvalidAmount | StoreError

fun message :: "error \<Rightarrow> string" where
  "message MissingField = ''Please fill out all fields.''"
| "message InvalidAmount = ''Amount must be a positive number.''"
| "message StoreError = ''Could not save transaction. Please try again.''"

text \<open>
  The validation and normalisation of \<^verbatim>\<open>handleAddOrUpdateTransaction\<close> (lines 260 to 271):
  the two guards, then \<^verbatim>\<open>amountValue\<close> and \<^verbatim>\<open>transactionData\<close>.
\<close>

definition validateCreateOrUpdate :: "tracker \<Rightarrow> error + transactionData" where
  "validateCreateOrUpdate st =
     (if s_text st = [] \<or> s_date st = [] then Inl MissingField
      else if falsy_amount (s_amount st) \<or> js_le0 (parseFloat_amount (s_amount st))
      then Inl InvalidAmount
      else
        (let amountValue =
               (if s_transactionType st = ''expense''
                then js_neg (Math_abs (parseFloat_amount (s_amount st)))
                else Math_abs (parseFloat_amount (s_amount st)))
         in Inr \<lparr>d_text = s_text st, d_amount = amountValue, d_category = s_category st,
                 d_type = s_transactionType st, d_date = s_date st\<rparr>))"

datatype request = AddDoc transactionData | UpdateDoc string transactionData

text \<open>\<^verbatim>\<open>if (editingId)\<close>: \<^verbatim>\<open>null\<close> and the empty string are falsy.\<close>

fun editing :: "string option \<Rightarrow> string option" where
  "editing None = None"
| "editing (Some i) = (if i = [] then None else Some i)"

definition resetForm :: "string \<Rightarrow> tracker \<Rightarrow> tracker" where
  "resetForm today st =
     st\<lparr>s_text := [], s_amount := AStr [], s_transactionType := ''expense'',
        s_category := ''Food'', s_date := today\<rparr>"

text \<open>
  \<^verbatim>\<open>handleAddOrUpdateTransaction\<close>. \<open>stored\<close> tells whether the awaited write resolves,
  \<open>today\<close> is \<^verbatim>\<open>new Date().toISOString().slice(0, 10)\<close>. The result is the next state and
  the write that was sent, if any.
\<close>

definition handleAddOrUpdateTransaction ::
  "bool \<Rightarrow> string \<Rightarrow> tracker \<Rightarrow> tracker \<times> request option" where
  "handleAddOrUpdateTransaction stored today st =
     (let st0 = st\<lparr>s_formError := []\<rparr>
      in case validateCreateOrUpdate st0 of
           Inl e \<Rightarrow> (st0\<lparr>s_formError := message e\<rparr>, None)
         | Inr transactionData \<Rightarrow>
             (case editing (s_editingId st0) of
                Some i \<Rightarrow>
                  (if stored
                   then (resetForm today (st0\<lparr>s_editingId := None\<rparr>), Some (UpdateDoc i transactionData))
                   else (st0\<lparr>s_formError := message StoreError\<rparr>, Some (UpdateDoc i transactionData)))
              | None \<Rightarrow>
                  (if stored
                   then (resetForm today st0, Some (AddDoc transactionData))
                   else (st0\<lparr>s_formError := message StoreError\<rparr>, Some (AddDoc transactionData)))))"

definition handleEditTransaction :: "transaction \<Rightarrow> tracker \<Rightarrow> tracker" where
  "handleEditTransaction transaction st =
     st\<lparr>s_editingId := Some (t_id transaction), s_text := t_text transaction,
        s_amount := ANum (Math_abs (Fin (t_amount transaction))),
        s_transactionType := t_type transaction, s_category := t_category transaction,
        s_date := t_date transaction, s_formError := []\<rparr>"




subsection \<open>The auth-state callback of \<^verbatim>\<open>App\<close>\<close>

text \<open>
  The callback \<^verbatim>\<open>(currentUser) => { setUser(currentUser); setLoading(false); }\<close> runs in
  the scope chain callback, \<^verbatim>\<open>App\<close>, module. A call evaluates its callee first; an
  identifier that no scope binds raises a \<^verbatim>\<open>ReferenceError\<close>, which nothing around the
  callback catches. The module scope lists the imports and the top-level declarations of
  the file; no global of the host is called \<^verbatim>\<open>setLoading\<close>.
\<close>

datatype fault = ReferenceError string

text \<open>A call statement: the callee and the identifiers among its arguments.\<close>

datatype stmt = Call string "string list"

definition moduleScope :: "string list" where
  "moduleScope =
     [''React'', ''useState'', ''useMemo'', ''useEffect'', ''useRef'',
      ''TrendingUp'', ''TrendingDown'', ''DollarSign'', ''Plus'', ''Edit'', ''Trash2'', ''LogOut'',
      ''Sun'', ''Moon'', ''Chart'', ''initializeApp'', ''getAuth'', ''onAuthStateChanged'',
      ''createUserWithEmailAndPassword'', ''signInWithEmailAndPassword'', ''signOut'',
      ''getFirestore'', ''collection'', ''onSnapshot'', ''addDoc'', ''updateDoc'', ''deleteDoc'',
      ''doc'', ''query'', ''firebaseConfig'', ''app'', ''auth'', ''db'',
      ''getFriendlyErrorMessage'', ''expenseCategories'', ''incomeCategories'',
      ''currencySymbols'', ''DoughnutChart'', ''TransactionItem'', ''ExpenseTracker'',
      ''AuthComponent'', ''App'']"

text \<open>\<^verbatim>\<open>const [user, setUser] = useState(null); const [loading] = useState(true);\<close>\<close>

definition appScope :: "string list" where
  "appScope = [''user'', ''setUser'', ''loading'']"

definition callbackScope :: "string list" where
  "callbackScope = [''currentUser'']"

definition authCallbackBody :: "stmt list" where
  "authCallbackBody = [Call ''setUser'' [''currentUser''], Call ''setLoading'' []]"

fun resolve :: "string list \<Rightarrow> string list \<Rightarrow> fault + unit" where
  "resolve scope [] = Inr ()"
| "resolve scope (x # xs) = (if x \<in> set scope then resolve scope xs else Inl (ReferenceError x))"

text \<open>Statements run in order; the first fault ends the run. The result lists the calls made.\<close>

fun run :: "string list \<Rightarrow> stmt list \<Rightarrow> string list \<Rightarrow> fault + string list" where
  "run scope [] called = Inr called"
| "run scope (Call f args # rest) called =
     (case resolve scope (f # args) of
        Inl e \<Rightarrow> Inl e
      | Inr _ \<Rightarrow> run scope rest (called @ [f]))"

definition onAuthStateChanged_callback :: "fault + string list" where
  "onAuthStateChanged_callback = run (callbackScope @ appScope @ moduleScope) authCallbackBody []"

subsection \<open>Notions used in the statements\<close>




definition digitChar :: "nat \<Rightarrow> char" where
  "digitChar n = ''0123456789'' ! n"

definition pad2 :: "nat \<Rightarrow> string" where
  "pad2 n = [digitChar (n div 10), digitChar (n mod 10)]"

definition pad4 :: "nat \<Rightarrow> string" where
  "pad4 n = pad2 (n div 100) @ pad2 (n mod 100)"

definition isoDate :: "civil \<Rightarrow> string" where
  "isoDate c = pad4 (nat (c_year c)) @ ''-'' @ pad2 (c_month c) @ ''-'' @ pad2 (c_day c)"

subsection \<open>Initial state and sample inputs\<close>

text \<open>The initial values of the \<^verbatim>\<open>useState\<close> calls of \<^verbatim>\<open>ExpenseTracker\<close>.\<close>

definition initialTracker :: "string \<Rightarrow> selectedDate \<Rightarrow> tracker" where
  "initialTracker today now =
     \<lparr>s_transactions = [], s_filter = ''all'', s_text = [], s_amount = AStr [],
      s_category = ''Food'', s_transactionType = ''expense'', s_date = today,
      s_editingId = None, s_selectedDate = now, s_formError = []\<rparr>"

definition january2024 :: selectedDate where
  "january2024 = \<lparr>sel_year = 2024, sel_month = 0\<rparr>"

text \<open>A filled-in form: description \<^verbatim>\<open>lunch\<close>, the given amount string, dated 2024-01-05.\<close>

definition draftWith :: "string \<Rightarrow> tracker" where
  "draftWith a = (initialTracker ''2024-01-05'' january2024)\<lparr>s_text := ''lunch'', s_amount := AStr a\<rparr>"

text \<open>The three records of the example scenario.\<close>

definition recLunch :: transaction where
  "recLunch = \<lparr>t_id = ''a'', t_text = ''lunch'', t_amount = - 20, t_type = ''expense'',
                t_category = ''Food'', t_date = ''2024-01-05''\<rparr>"

definition recPay :: transaction where
  "recPay = \<lparr>t_id = ''b'', t_text = ''pay'', t_amount = 100, t_type = ''income'',
              t_category = ''Salary'', t_date = ''2024-01-10''\<rparr>"

definition recSnack :: transaction where
  "recSnack = \<lparr>t_id = ''c'', t_text = ''snack'', t_amount = - 5, t_type = ''expense'',
                t_category = ''Food'', t_date = ''2024-02-01''\<rparr>"

text \<open>Records that satisfy \<open>type = expense \<longleftrightarrow> amount < 0\<close> and cannot be resubmitted.\<close>

definition recZero :: transaction where
  "recZero = \<lparr>t_id = ''z'', t_text = ''gift'', t_amount = 0, t_type = ''income'',
               t_category = ''Other'', t_date = ''2024-01-07''\<rparr>"

definition recNoText :: transaction where
  "recNoText = recLunch\<lparr>t_text := []\<rparr>"

definition recNoDate :: transaction where
  "recNoDate = recLunch\<lparr>t_date := []\<rparr>"




section \<open>Properties\<close>

subsection \<open>Evaluating \<^verbatim>\<open>parseFloat\<close>\<close>



lemma parseFloat_cent: "parseFloat ''0.01'' = Fin (1 / 100)"
  by code_simp

lemma parseFloat_zero: "parseFloat ''0'' = Fin 0"
  by code_simp

lemma parseFloat_minus5: "parseFloat ''-5'' = Fin (- 5)"
  by code_simp





subsection \<open>The auth-state callback\<close>

text \<open>
  C1. No handler ends in an uncaught fault; in particular the auth-state callback of
  \<^verbatim>\<open>App\<close> references no undefined binding. The code does otherwise: after
  \<^verbatim>\<open>setUser(currentUser)\<close> the callback calls \<^verbatim>\<open>setLoading\<close>, which the destructuring
  \<^verbatim>\<open>const [loading] = useState(true)\<close> no longer binds, so every auth-state change ends
  in a \<^verbatim>\<open>ReferenceError\<close>.
\<close>

theorem auth_callback_reference_error:
  "onAuthStateChanged_callback = Inl (ReferenceError ''setLoading'')"
  by (simp add: onAuthStateChanged_callback_def authCallbackBody_def callbackScope_def
      appScope_def moduleScope_def)

subsection \<open>Validation\<close>

text \<open>The order of the guards: a draft without text or date is a missing field, whatever its amount.\<close>

lemma validate_missing_first:
  "s_text st = [] \<or> s_date st = [] \<Longrightarrow> validateCreateOrUpdate st = Inl MissingField"
  by (simp add: validateCreateOrUpdate_def)

lemma validate_invalid_amount:
  "s_text st \<noteq> [] \<Longrightarrow> s_date st \<noteq> [] \<Longrightarrow>
   falsy_amount (s_amount st) \<or> js_le0 (parseFloat_amount (s_amount st)) \<Longrightarrow>
   validateCreateOrUpdate st = Inl InvalidAmount"
  by (simp add: validateCreateOrUpdate_def)

lemma validate_rejects_zero: "validateCreateOrUpdate (draftWith ''0'') = Inl InvalidAmount"
  by (simp add: validateCreateOrUpdate_def draftWith_def initialTracker_def parseFloat_zero)

lemma validate_rejects_negative: "validateCreateOrUpdate (draftWith ''-5'') = Inl InvalidAmount"
  by (simp add: validateCreateOrUpdate_def draftWith_def initialTracker_def parseFloat_minus5)

lemma validate_rejects_empty: "validateCreateOrUpdate (draftWith []) = Inl InvalidAmount"
  by (simp add: validateCreateOrUpdate_def draftWith_def initialTracker_def)

lemma validate_accepts_cent:
  "validateCreateOrUpdate (draftWith ''0.01'') =
     Inr \<lparr>d_text = ''lunch'', d_amount = Fin (- (1 / 100)), d_category = ''Food'',
          d_type = ''expense'', d_date = ''2024-01-05''\<rparr>"
  by (simp add: validateCreateOrUpdate_def draftWith_def initialTracker_def parseFloat_cent)


subsection \<open>Normalisation\<close>

text \<open>
  What holds of an accepted draft whose amount did parse: the sign follows the type, the
  amount is not zero, and the other fields are those of the draft.
\<close>

lemma normalized_when_parsed:
  assumes "validateCreateOrUpdate st = Inr d" and "parseFloat_amount (s_amount st) \<noteq> NaN"
  shows "(d_type d = ''expense'' \<longleftrightarrow> js_lt0 (d_amount d)) \<and> d_amount d \<noteq> Fin 0 \<and>
         d_amount d = (if s_transactionType st = ''expense''
                       then js_neg (Math_abs (parseFloat_amount (s_amount st)))
                       else Math_abs (parseFloat_amount (s_amount st))) \<and>
         d_text d = s_text st \<and> d_category d = s_category st \<and>
         d_type d = s_transactionType st \<and> d_date d = s_date st"
proof -
  obtain n where n: "parseFloat_amount (s_amount st) = n" by simp
  from assms have le: "\<not> js_le0 n" and nan: "n \<noteq> NaN"
    by (auto simp: validateCreateOrUpdate_def n split: if_splits)
  from assms(1) have d: "d = \<lparr>d_text = s_text st,
      d_amount = (if s_transactionType st = ''expense'' then js_neg (Math_abs n) else Math_abs n),
      d_category = s_category st, d_type = s_transactionType st, d_date = s_date st\<rparr>"
    by (auto simp: validateCreateOrUpdate_def n split: if_splits)
  from le nan show ?thesis
    by (cases n) (auto simp: d n)
qed


subsection \<open>Categories\<close>




subsection \<open>Edit sessions\<close>

text \<open>
  C10 as stated: for every record with \<open>type = expense \<longleftrightarrow> amount < 0\<close>, starting an edit and
  submitting the unchanged draft yields an update command with the record's fields. Three
  records with that property are rejected instead, and nothing is sent: one with amount zero
  (\<open>InvalidAmount\<close>), one without text and one without date (\<open>MissingField\<close>).
\<close>

theorem edit_roundtrip_counterexample:
  "(t_type recZero = ''expense'' \<longleftrightarrow> t_amount recZero < 0) \<and>
   validateCreateOrUpdate (handleEditTransaction recZero (initialTracker ''2024-01-06'' january2024)) =
     Inl InvalidAmount \<and>
   snd (handleAddOrUpdateTransaction True ''2024-01-06''
          (handleEditTransaction recZero (initialTracker ''2024-01-06'' january2024))) = None \<and>
   (t_type recNoText = ''expense'' \<longleftrightarrow> t_amount recNoText < 0) \<and>
   validateCreateOrUpdate (handleEditTransaction recNoText (initialTracker ''2024-01-06'' january2024)) =
     Inl MissingField \<and>
   (t_type recNoDate = ''expense'' \<longleftrightarrow> t_amount recNoDate < 0) \<and>
   validateCreateOrUpdate (handleEditTransaction recNoDate (initialTracker ''2024-01-06'' january2024)) =
     Inl MissingField"
  by (simp add: handleAddOrUpdateTransaction_def validateCreateOrUpdate_def handleEditTransaction_def
      initialTracker_def recZero_def recNoText_def recNoDate_def recLunch_def)

text \<open>
  C10 as amended: for every record with \<open>type = expense \<longleftrightarrow> amount < 0\<close> that has a non-empty
  text, a non-empty date and a non-zero amount, the unchanged edit draft is normalised to the
  record's own text, amount, category, type and date; when the record's id is not empty the
  submit sends them as an update of that id.
\<close>

theorem edit_roundtrip:
  assumes "t_type t = ''expense'' \<longleftrightarrow> t_amount t < 0"
    and "t_text t \<noteq> []" and "t_date t \<noteq> []" and "t_amount t \<noteq> 0"
  shows "validateCreateOrUpdate (handleEditTransaction t st) =
           Inr \<lparr>d_text = t_text t, d_amount = Fin (t_amount t), d_category = t_category t,
                d_type = t_type t, d_date = t_date t\<rparr> \<and>
         (t_id t \<noteq> [] \<longrightarrow>
            snd (handleAddOrUpdateTransaction stored today (handleEditTransaction t st)) =
              Some (UpdateDoc (t_id t)
                \<lparr>d_text = t_text t, d_amount = Fin (t_amount t), d_category = t_category t,
                 d_type = t_type t, d_date = t_date t\<rparr>))"
  using assms
  by (auto simp: handleAddOrUpdateTransaction_def validateCreateOrUpdate_def
      handleEditTransaction_def Let_def)

theorem edit_roundtrip_witness:
  "(t_type recLunch = ''expense'' \<longleftrightarrow> t_amount recLunch < 0) \<and> t_text recLunch \<noteq> [] \<and>
   t_date recLunch \<noteq> [] \<and> t_amount recLunch \<noteq> 0 \<and> t_id recLunch \<noteq> [] \<and>
   snd (handleAddOrUpdateTransaction True ''2024-01-06''
          (handleEditTransaction recLunch (initialTracker ''2024-01-06'' january2024))) =
     Some (UpdateDoc ''a'' \<lparr>d_text = ''lunch'', d_amount = Fin (- 20), d_category = ''Food'',
                             d_type = ''expense'', d_date = ''2024-01-05''\<rparr>)"
proof -
  have h1: "t_type recLunch = ''expense'' \<longleftrightarrow> t_amount recLunch < 0" by (simp add: recLunch_def)
  have h2: "t_text recLunch \<noteq> []" by (simp add: recLunch_def)
  have h3: "t_date recLunch \<noteq> []" by (simp add: recLunch_def)
  have h4: "t_amount recLunch \<noteq> 0" by (simp add: recLunch_def)
  have h5: "t_id recLunch \<noteq> []" by (simp add: recLunch_def)
  from edit_roundtrip [OF h1 h2 h3 h4, of "initialTracker ''2024-01-06'' january2024" True "''2024-01-06''"]
    h1 h2 h3 h4 h5
  show ?thesis by (simp add: recLunch_def)
qed

subsection \<open>The summary figures\<close>












subsection \<open>The category breakdown\<close>




















subsection \<open>Dates: reading back the text of a calendar date\<close>

lemma lt10_cases: "n < 10 \<Longrightarrow> n \<in> {0, 1, 2, 3, 4, 5, 6, 7, 8, 9 :: nat}"
  by auto

lemma digitChar_props:
  assumes "n < 10"
  shows "isDigit (digitChar n)" and "digitVal (digitChar n) = n"
    and "digitChar n \<noteq> CHR ''+''" and "digitChar n \<noteq> CHR ''-''"
  using lt10_cases [OF assms]
  by (auto simp: isDigit_def digitChar_def digitVal_def)

lemma parseDigits_pad2: "n < 100 \<Longrightarrow> parseDigits (pad2 n) = n"
  by (simp add: parseDigits_def pad2_def digitChar_props)

lemma pad4_digits:
  assumes "n < (10000::nat)"
  shows "n div 100 div 10 < 10" and "n div 100 mod 10 < 10" and "n mod 100 div 10 < 10"
    and "n mod 100 mod 10 < 10"
  using assms by simp_all

lemma parseDigits_pad4: "n < 10000 \<Longrightarrow> parseDigits (pad4 n) = n"
proof -
  assume n: "n < 10000"
  define h where "h = n div 100"
  define l where "l = n mod 100"
  have hl: "h < 100" "l < 100" using n by (simp_all add: h_def l_def)
  have "parseDigits (pad4 n) = foldl (\<lambda>acc c. 10 * acc + digitVal c) (parseDigits (pad2 h)) (pad2 l)"
    by (simp add: parseDigits_def pad4_def h_def l_def)
  also have "\<dots> = 10 * (10 * h + digitVal (digitChar (l div 10))) + digitVal (digitChar (l mod 10))"
    by (simp add: parseDigits_pad2 hl) (simp add: pad2_def)
  also have "\<dots> = 100 * h + (10 * (l div 10) + l mod 10)"
    using hl by (simp add: digitChar_props)
  also have "\<dots> = 100 * h + l" by simp
  also have "\<dots> = n" by (simp add: h_def l_def)
  finally show ?thesis .
qed

lemma readField_pad2:
  "n < 100 \<Longrightarrow> readField (CHR ''-'' # pad2 n @ r) = Some (n, r)"
  using parseDigits_pad2 [of n]
  by (simp add: readField_def allDigits_def pad2_def digitChar_props)

lemma readYear_pad4:
  "n < 10000 \<Longrightarrow> readYear (pad4 n @ r) = Some (int n, r)"
proof -
  assume n: "n < 10000"
  note d = pad4_digits [OF n]
  obtain a b c e where abce: "pad4 n = [a, b, c, e]"
    and dig: "isDigit a" "isDigit b" "isDigit c" "isDigit e" "a \<noteq> CHR ''+''" "a \<noteq> CHR ''-''"
    by (simp add: pad4_def pad2_def digitChar_props d)
  have p: "parseDigits [a, b, c, e] = n"
    using parseDigits_pad4 [OF n] by (simp add: abce)
  show ?thesis
    by (simp add: readYear_def abce allDigits_def dig p)
qed

lemma validCivil_bounds: "validCivil c \<Longrightarrow> c_month c < 100 \<and> c_day c < 100"
  by (auto simp: validCivil_def daysInMonth_def split: if_splits)

lemma readMonthDay_pads:
  assumes "m < 100" and "d < 100"
  shows "readMonthDay y (CHR ''-'' # pad2 m @ CHR ''-'' # pad2 d) =
         Some \<lparr>c_year = y, c_month = m, c_day = d\<rparr>"
proof -
  have 1: "readField (CHR ''-'' # pad2 m @ CHR ''-'' # pad2 d) = Some (m, CHR ''-'' # pad2 d)"
    by (rule readField_pad2 [OF assms(1)])
  have 2: "readField (CHR ''-'' # pad2 d) = Some (d, [])"
    using readField_pad2 [OF assms(2), of "[]"] by simp
  show ?thesis
    by (simp add: readMonthDay_def 1 2)
qed

lemma parseDate_isoDate:
  assumes "validCivil c" and "0 \<le> c_year c" and "c_year c \<le> 9999"
  shows "parseDate (isoDate c) = Some c"
proof -
  obtain y m d where c: "c = \<lparr>c_year = y, c_month = m, c_day = d\<rparr>"
    by (cases c) simp
  from assms have y: "nat y < 10000" "int (nat y) = y" by (simp_all add: c)
  from validCivil_bounds [OF assms(1)] have m: "m < 100" and d: "d < 100" by (simp_all add: c)
  have i: "isoDate c = pad4 (nat y) @ (CHR ''-'' # pad2 m @ CHR ''-'' # pad2 d)"
    by (simp add: isoDate_def c)
  have r: "readYear (isoDate c) = Some (y, CHR ''-'' # pad2 m @ CHR ''-'' # pad2 d)"
    unfolding i using readYear_pad4 [OF y(1)] y(2) by simp
  have "parseDate (isoDate c) =
          (if validCivil \<lparr>c_year = y, c_month = m, c_day = d\<rparr>
           then Some \<lparr>c_year = y, c_month = m, c_day = d\<rparr> else None)"
    unfolding parseDate_def r by (simp add: readMonthDay_pads [OF m d])
  with assms(1) show ?thesis by (simp add: c)
qed


subsection \<open>The sorted snapshot and the monthly selection\<close>

lemma set_insertBy: "set (insertBy cmp x ys) = insert x (set ys)"
  by (induction ys) auto

lemma set_sortBy: "set (sortBy cmp xs) = set xs"
  by (induction xs) (simp_all add: sortBy_def set_insertBy)

lemma set_onSnapshot: "set (onSnapshot docs) = set docs"
  by (simp add: onSnapshot_def set_sortBy)






lemma parsed_valid: "parseDate s = Some c \<Longrightarrow> validCivil c"
  by (auto simp: parseDate_def split: option.splits if_splits)



text \<open>
  C3. For every record set, year and month, the monthly selection of the sorted snapshot
  contains a record exactly when the record is in the snapshot and its date has that year
  and that (zero-based) month. For a record dated with the text of a calendar date, that is
  the year and month of the date, whatever its day.
\<close>

theorem selectForMonth_membership:
  "(t \<in> set (monthlyTransactions (onSnapshot docs) y m) \<longleftrightarrow>
      t \<in> set docs \<and> getFullYear (t_date t) = Some y \<and> getMonth (t_date t) = Some m) \<and>
   (validCivil c \<and> 0 \<le> c_year c \<and> c_year c \<le> 9999 \<and> t_date t = isoDate c \<longrightarrow>
      (t \<in> set (monthlyTransactions (onSnapshot docs) y m) \<longleftrightarrow>
         t \<in> set docs \<and> c_year c = y \<and> int (c_month c) - 1 = m))"
proof -
  have 1: "t \<in> set (monthlyTransactions (onSnapshot docs) y m) \<longleftrightarrow>
      t \<in> set docs \<and> getFullYear (t_date t) = Some y \<and> getMonth (t_date t) = Some m"
    by (simp add: monthlyTransactions_def set_onSnapshot)
  have 2: "getFullYear (t_date t) = Some (c_year c) \<and> getMonth (t_date t) = Some (int (c_month c) - 1)"
    if "validCivil c" "0 \<le> c_year c" "c_year c \<le> 9999" "t_date t = isoDate c"
    using parseDate_isoDate [OF that(1,2,3)] that(4) by (simp add: getFullYear_def getMonth_def)
  from 1 2 show ?thesis by auto
qed

theorem selectForMonth_membership_witness:
  "isoDate \<lparr>c_year = 2024, c_month = 1, c_day = 5\<rparr> = t_date recLunch \<and>
   recLunch \<in> set (monthlyTransactions (onSnapshot [recLunch, recPay, recSnack]) 2024 0) \<and>
   recLunch \<notin> set (monthlyTransactions (onSnapshot [recLunch, recPay, recSnack]) 2024 1)"
proof -
  let ?c = "\<lparr>c_year = 2024, c_month = 1, c_day = 5\<rparr>"
  have h1: "validCivil ?c" by (simp add: validCivil_def daysInMonth_def)
  have h2: "t_date recLunch = isoDate ?c"
    by (simp add: recLunch_def isoDate_def pad4_def pad2_def digitChar_def)
  have h: "validCivil ?c \<and> 0 \<le> c_year ?c \<and> c_year ?c \<le> 9999 \<and> t_date recLunch = isoDate ?c"
    using h1 h2 by simp
  note jan = selectForMonth_membership [where t = recLunch and docs = "[recLunch, recPay, recSnack]"
      and y = 2024 and m = 0 and c = ?c, THEN conjunct2, rule_format, OF h]
  note feb = selectForMonth_membership [where t = recLunch and docs = "[recLunch, recPay, recSnack]"
      and y = 2024 and m = 1 and c = ?c, THEN conjunct2, rule_format, OF h]
  from jan have 1: "recLunch \<in> set (monthlyTransactions (onSnapshot [recLunch, recPay, recSnack]) 2024 0)"
    by simp
  from feb have 2: "recLunch \<notin> set (monthlyTransactions (onSnapshot [recLunch, recPay, recSnack]) 2024 1)"
    by simp
  from h2 1 2 show ?thesis by simp
qed



end
